theory Spec2Isabelle
  imports Complex_Main
begin

section \<open>CV Onion: flows, server actions and the submission page\<close>

text \<open>
  The development follows the four TypeScript modules of the application: the two
  Genkit flows \<open>analyze-cv.ts\<close> and \<open>match-cv-to-job.ts\<close>, the server actions
  \<open>actions.ts\<close>, and the page component \<open>page.tsx\<close>. Asynchronous functions are
  modelled by their settled result: \<open>Inl e\<close> is a promise rejected with the thrown
  value \<open>e\<close>, \<open>Inr v\<close> a promise fulfilled with \<open>v\<close>. Console output and the remote
  calls that a function performs are returned next to its result.

  A \<open>string\<close> stands for a JavaScript string, one list element for each UTF-16 code
  unit, so that \<open>length\<close> is the \<open>.length\<close> that the validators compare.
\<close>

subsection \<open>Thrown values and the console\<close>

text \<open>
  The code distinguishes thrown values only by \<open>error instanceof Error\<close> and reads
  \<open>message\<close> only from the values it catches. \<open>JsError m\<close> is an instance of
  \<open>Error\<close> whose message is \<open>m\<close>. \<open>NonError\<close> is any other thrown value; the ones that
  reach a \<open>.message\<close> read are the \<open>ProgressEvent\<close>s with which \<open>FileReader.onerror\<close>
  rejects, and they have no \<open>message\<close> property.
\<close>

datatype thrown = JsError string | NonError

datatype log_entry = ConsoleError string thrown | ConsoleWarn string thrown

subsection \<open>JSON values and the declared schemas\<close>

text \<open>
  The answer of the model backend is a JSON value. A JSON number is a finite decimal,
  hence a rational; \<open>z.number()\<close> accepts every one of them.
\<close>

datatype json =
    JNull
  | JBool bool
  | JNumber rat
  | JString string
  | JArray "json list"
  | JObject "(string \<times> json) list"

text \<open>The part of the zod schema language that the flows use.\<close>

datatype zschema =
    ZString
  | ZNumber
  | ZArray zschema
  | ZEnum "string list"
  | ZObject "(string \<times> zschema) list"

fun conforms :: "zschema \<Rightarrow> json \<Rightarrow> bool" where
  "conforms ZString (JString s) = True"
| "conforms ZNumber (JNumber n) = True"
| "conforms (ZArray s) (JArray xs) = list_all (conforms s) xs"
| "conforms (ZEnum vs) (JString s) = (s \<in> set vs)"
| "conforms (ZObject shape) (JObject props) =
     list_all (\<lambda>(k, s). case map_of props k of None \<Rightarrow> False | Some v \<Rightarrow> conforms s v) shape"
| "conforms _ _ = False"

record AnalyzeCvInput =
  cvDataUri :: string

record AnalyzeCvOutput =
  skills :: "string list"
  experience :: string
  qualifications :: string

definition AnalyzeCvOutputSchema :: zschema where
  "AnalyzeCvOutputSchema =
     ZObject [(''skills'', ZArray ZString), (''experience'', ZString), (''qualifications'', ZString)]"

text \<open>
  In \<open>MatchCvToJobInput\<close> and \<open>AnalyzeJobDescriptionInput\<close> the source names the field
  \<open>jobDescription\<close>, as it does in the form values; the prefixes keep the three apart.
\<close>

record MatchCvToJobInput =
  match_jobDescription :: string
  cvContent :: string

record MatchCvToJobOutput =
  matchScore :: rat
  highlightedCv :: string
  colorCode :: string

definition MatchCvToJobOutputSchema :: zschema where
  "MatchCvToJobOutputSchema =
     ZObject [(''matchScore'', ZNumber), (''highlightedCv'', ZString),
              (''colorCode'', ZEnum [''green'', ''orange'', ''red''])]"

text \<open>
  \<open>z.infer\<close>: the typed view of a JSON value. TypeScript types are erased at run time,
  so the view only reads the declared properties.
\<close>

fun as_strings :: "json list \<Rightarrow> string list option" where
  "as_strings [] = Some []"
| "as_strings (JString s # js) = (case as_strings js of None \<Rightarrow> None | Some ss \<Rightarrow> Some (s # ss))"
| "as_strings (_ # js) = None"

definition as_AnalyzeCvOutput :: "json \<Rightarrow> AnalyzeCvOutput option" where
  "as_AnalyzeCvOutput j =
     (case j of
        JObject props \<Rightarrow>
          (case map_of props ''skills'' of
             Some (JArray xs) \<Rightarrow>
               (case as_strings xs of
                  Some ss \<Rightarrow>
                    (case map_of props ''experience'' of
                       Some (JString e) \<Rightarrow>
                         (case map_of props ''qualifications'' of
                            Some (JString q) \<Rightarrow>
                              Some \<lparr>skills = ss, experience = e, qualifications = q\<rparr>
                          | _ \<Rightarrow> None)
                     | _ \<Rightarrow> None)
                | None \<Rightarrow> None)
           | _ \<Rightarrow> None)
      | _ \<Rightarrow> None)"

definition as_MatchCvToJobOutput :: "json \<Rightarrow> MatchCvToJobOutput option" where
  "as_MatchCvToJobOutput j =
     (case j of
        JObject props \<Rightarrow>
          (case map_of props ''matchScore'' of
             Some (JNumber n) \<Rightarrow>
               (case map_of props ''highlightedCv'' of
                  Some (JString h) \<Rightarrow>
                    (case map_of props ''colorCode'' of
                       Some (JString c) \<Rightarrow>
                         Some \<lparr>matchScore = n, highlightedCv = h, colorCode = c\<rparr>
                     | _ \<Rightarrow> None)
                | _ \<Rightarrow> None)
           | _ \<Rightarrow> None)
      | _ \<Rightarrow> None)"

subsection \<open>The flows\<close>

text \<open>
  Modelled from the spec: \<open>ai.definePrompt\<close> and \<open>ai.defineFlow\<close> of the module
  \<open>@/ai/genkit\<close>, which is not among the sources. The spec (4.2) says that a
  prompt-bound operation returns the backend's answer coerced to the declared response
  shape and fails with a generic error if the backend cannot produce a conforming answer.
  The backend is a parameter: \<open>respond input\<close> is what awaiting \<open>prompt(input)\<close> gives,
  a thrown value or the \<open>output\<close> property, which is \<open>null\<close> (\<open>None\<close>) when there is
  no answer. \<open>failure\<close> is the message of the generic error.
\<close>

definition defineFlow ::
  "string \<Rightarrow> zschema \<Rightarrow> (json \<Rightarrow> 'o option) \<Rightarrow> ('i \<Rightarrow> thrown + json option) \<Rightarrow> 'i \<Rightarrow> thrown + 'o" where
  "defineFlow failure outputSchema view body input =
     (case body input of
        Inl e \<Rightarrow> Inl e
      | Inr None \<Rightarrow> Inl (JsError failure)
      | Inr (Some j) \<Rightarrow>
          (if conforms outputSchema j
           then (case view j of Some v \<Rightarrow> Inr v | None \<Rightarrow> Inl (JsError failure))
           else Inl (JsError failure)))"

text \<open>
  The flow bodies of the source: \<open>const {output} = await prompt(input); return output!;\<close>.
  The non-null assertion is erased at run time, so the body returns \<open>output\<close> as it is.
\<close>

definition analyzeCvFlow ::
  "string \<Rightarrow> (AnalyzeCvInput \<Rightarrow> thrown + json option) \<Rightarrow> AnalyzeCvInput \<Rightarrow> thrown + AnalyzeCvOutput" where
  "analyzeCvFlow failure prompt =
     defineFlow failure AnalyzeCvOutputSchema as_AnalyzeCvOutput
       (\<lambda>input. case prompt input of Inl e \<Rightarrow> Inl e | Inr output \<Rightarrow> Inr output)"

definition analyzeCv ::
  "string \<Rightarrow> (AnalyzeCvInput \<Rightarrow> thrown + json option) \<Rightarrow> AnalyzeCvInput \<Rightarrow> thrown + AnalyzeCvOutput" where
  "analyzeCv failure prompt input = analyzeCvFlow failure prompt input"

definition matchCvToJobFlow ::
  "string \<Rightarrow> (MatchCvToJobInput \<Rightarrow> thrown + json option) \<Rightarrow> MatchCvToJobInput
     \<Rightarrow> thrown + MatchCvToJobOutput" where
  "matchCvToJobFlow failure prompt =
     defineFlow failure MatchCvToJobOutputSchema as_MatchCvToJobOutput
       (\<lambda>input. case prompt input of Inl e \<Rightarrow> Inl e | Inr output \<Rightarrow> Inr output)"

definition matchCvToJob ::
  "string \<Rightarrow> (MatchCvToJobInput \<Rightarrow> thrown + json option) \<Rightarrow> MatchCvToJobInput
     \<Rightarrow> thrown + MatchCvToJobOutput" where
  "matchCvToJob failure prompt input = matchCvToJobFlow failure prompt input"

subsection \<open>Server actions\<close>

text \<open>
  \<open>actions.ts\<close>. The flow \<open>analyze-job-description.ts\<close> is not among the sources; the
  actions take the operation they wrap as a parameter, and the shape of its answer is the
  one the page reads.
\<close>

record AnalyzeJobDescriptionInput =
  job_jobDescription :: string

record AnalyzeJobDescriptionOutput =
  requiredSkills :: "string list"
  requiredExperience :: string
  requiredQualifications :: string

definition analyzeCvAction ::
  "(AnalyzeCvInput \<Rightarrow> thrown + AnalyzeCvOutput) \<Rightarrow> AnalyzeCvInput
     \<Rightarrow> log_entry list \<times> (thrown + AnalyzeCvOutput)" where
  "analyzeCvAction analyzeCv_op input =
     (case analyzeCv_op input of
        Inr result \<Rightarrow> ([], Inr result)
      | Inl err \<Rightarrow>
          ([ConsoleError ''Error in analyzeCvAction:'' err],
           (case err of
              JsError message \<Rightarrow> Inl (JsError (''Failed to analyze CV: '' @ message))
            | NonError \<Rightarrow> Inl (JsError ''Failed to analyze CV due to an unknown error.''))))"

definition analyzeJobDescriptionAction ::
  "(AnalyzeJobDescriptionInput \<Rightarrow> thrown + AnalyzeJobDescriptionOutput) \<Rightarrow> AnalyzeJobDescriptionInput
     \<Rightarrow> log_entry list \<times> (thrown + AnalyzeJobDescriptionOutput)" where
  "analyzeJobDescriptionAction analyzeJobDescription_op input =
     (case analyzeJobDescription_op input of
        Inr result \<Rightarrow> ([], Inr result)
      | Inl err \<Rightarrow>
          ([ConsoleError ''Error in analyzeJobDescriptionAction:'' err],
           (case err of
              JsError message \<Rightarrow> Inl (JsError (''Failed to analyze job description: '' @ message))
            | NonError \<Rightarrow>
                Inl (JsError ''Failed to analyze job description due to an unknown error.''))))"

definition matchCvToJobAction ::
  "(MatchCvToJobInput \<Rightarrow> thrown + MatchCvToJobOutput) \<Rightarrow> MatchCvToJobInput
     \<Rightarrow> log_entry list \<times> (thrown + MatchCvToJobOutput)" where
  "matchCvToJobAction matchCvToJob_op input =
     (case matchCvToJob_op input of
        Inr result \<Rightarrow> ([], Inr result)
      | Inl err \<Rightarrow>
          ([ConsoleError ''Error in matchCvToJobAction:'' err],
           (case err of
              JsError message \<Rightarrow> Inl (JsError (''Failed to match CV to job: '' @ message))
            | NonError \<Rightarrow> Inl (JsError ''Failed to match CV to job due to an unknown error.''))))"

text \<open>The message format of the specification (4.3), for an operation name.\<close>

definition spec_failure_message :: "string \<Rightarrow> thrown \<Rightarrow> string" where
  "spec_failure_message operation err =
     (case err of
        JsError message \<Rightarrow> ''Failed to '' @ operation @ '': '' @ message
      | NonError \<Rightarrow> ''Failed to '' @ operation @ '' due to an unknown error.'')"

subsection \<open>The form schema\<close>

record js_file =
  file_name :: string
  file_size :: nat
  file_type :: string

text \<open>
  The values react-hook-form hands to the resolver. A file input that was registered
  holds its \<open>FileList\<close>, which is empty while no file is chosen (\<open>Some []\<close>); \<open>None\<close> is
  a value that is \<open>undefined\<close>.
\<close>

record FormValues =
  jobDescription :: string
  cvFile :: "js_file list option"

text \<open>
  The three predicates given to \<open>refine\<close>, with JavaScript's evaluation of \<open>&&\<close>:
  an \<open>undefined\<close> list makes the conjunction falsy; on an empty \<open>FileList\<close> the first
  conjunct is truthy, \<open>files[0]\<close> is \<open>undefined\<close>, and reading \<open>.size\<close> or \<open>.type\<close> from
  it throws a \<open>TypeError\<close>. Its message depends on the engine: \<open>tmsg x\<close> is the
  engine's message for the failing expression \<open>x\<close>.
\<close>

definition cvFile_is_required :: "js_file list option \<Rightarrow> thrown + bool" where
  "cvFile_is_required files =
     (case files of None \<Rightarrow> Inr False | Some fs \<Rightarrow> Inr (length fs = 1))"

definition cvFile_size_ok :: "(string \<Rightarrow> string) \<Rightarrow> js_file list option \<Rightarrow> thrown + bool" where
  "cvFile_size_ok tmsg files =
     (case files of
        None \<Rightarrow> Inr False
      | Some [] \<Rightarrow> Inl (JsError (tmsg ''files[0].size''))
      | Some (f # _) \<Rightarrow> Inr (file_size f \<le> 5 * 1024 * 1024))"

definition cvFile_type_ok :: "(string \<Rightarrow> string) \<Rightarrow> js_file list option \<Rightarrow> thrown + bool" where
  "cvFile_type_ok tmsg files =
     (case files of
        None \<Rightarrow> Inr False
      | Some [] \<Rightarrow> Inl (JsError (tmsg ''files[0].type''))
      | Some (f # _) \<Rightarrow>
          Inr (file_type f = ''application/pdf'' \<or> file_type f = ''text/plain''
               \<or> file_type f = ''application/vnd.openxmlformats-officedocument.wordprocessingml.document''
               \<or> file_type f = ''application/msword''))"

text \<open>
  zod runs a chain of refinements from the innermost outwards. A refinement that fails
  records its message and parsing continues with the next one (zod stops only after an
  issue marked fatal, and \<open>refine\<close> marks none); an exception thrown by a predicate is not
  caught and ends the parse.
\<close>

fun run_refinements :: "(('a \<Rightarrow> thrown + bool) \<times> string) list \<Rightarrow> 'a \<Rightarrow> thrown + string list" where
  "run_refinements [] v = Inr []"
| "run_refinements ((check, message) # rs) v =
     (case check v of
        Inl e \<Rightarrow> Inl e
      | Inr ok \<Rightarrow>
          (case run_refinements rs v of
             Inl e \<Rightarrow> Inl e
           | Inr ms \<Rightarrow> Inr (if ok then ms else message # ms)))"

record form_issues =
  jobDescription_issues :: "string list"
  cvFile_issues :: "string list"

definition formSchema :: "(string \<Rightarrow> string) \<Rightarrow> FormValues \<Rightarrow> thrown + form_issues" where
  "formSchema tmsg values =
     (let jd = (if length (jobDescription values) < 50
                then [''Job description must be at least 50 characters.''] else [])
      in case run_refinements
                [(cvFile_is_required, ''CV file is required.''),
                 (cvFile_size_ok tmsg, ''CV file size must be less than 5MB.''),
                 (cvFile_type_ok tmsg, ''CV must be a PDF, DOCX, DOC, or TXT file.'')]
                (cvFile values) of
           Inl e \<Rightarrow> Inl e
         | Inr cv \<Rightarrow> Inr \<lparr>jobDescription_issues = jd, cvFile_issues = cv\<rparr>)"

text \<open>
  \<open>formState.errors\<close>: the message shown under each field. \<open>zodResolver\<close> keeps the first
  issue of each field and rethrows whatever is not a validation error.
\<close>

record form_errors =
  jobDescription_error :: "string option"
  cvFile_error :: "string option"

definition no_errors :: form_errors where
  "no_errors = \<lparr>jobDescription_error = None, cvFile_error = None\<rparr>"

definition first_message :: "string list \<Rightarrow> string option" where
  "first_message ms = (case ms of [] \<Rightarrow> None | m # _ \<Rightarrow> Some m)"

definition zodResolver :: "(string \<Rightarrow> string) \<Rightarrow> FormValues \<Rightarrow> thrown + form_errors" where
  "zodResolver tmsg values =
     (case formSchema tmsg values of
        Inl e \<Rightarrow> Inl e
      | Inr issues \<Rightarrow>
          Inr \<lparr>jobDescription_error = first_message (jobDescription_issues issues),
               cvFile_error = first_message (cvFile_issues issues)\<rparr>)"

subsection \<open>The page: state and environment\<close>

text \<open>
  The \<open>useState\<close> cells of \<open>CvOnionPage\<close>, and the form's \<open>formState.errors\<close>. The
  page writes \<open>fileName\<close> in a function that it passes to \<open>useState\<close>; React runs such an
  initialiser once, when the component mounts and no file is chosen, so that the
  handlers below are the only other writers of the state.
\<close>

record page_state =
  isLoading :: bool
  error :: "string option"
  cvAnalysis :: "AnalyzeCvOutput option"
  jobAnalysis :: "AnalyzeJobDescriptionOutput option"
  matchResult :: "MatchCvToJobOutput option"
  fileName :: "string option"
  errors :: form_errors

definition initial_state :: page_state where
  "initial_state =
     \<lparr>isLoading = False, error = None, cvAnalysis = None, jobAnalysis = None,
      matchResult = None, fileName = None, errors = no_errors\<rparr>"

datatype op_id = OpAnalyzeCv | OpAnalyzeJobDescription | OpMatchCvToJob

datatype remote_call =
    AnalyzeCvCall AnalyzeCvInput
  | AnalyzeJobDescriptionCall AnalyzeJobDescriptionInput
  | MatchCvToJobCall MatchCvToJobInput

text \<open>
  What the page cannot decide: how a \<open>FileReader\<close> settles on a file (\<open>Inl\<close> is the event
  given to \<open>onerror\<close>), how the three operations behind the actions settle, in which
  order their promises settle (operations that \<open>settled\<close> leaves out settle last, in the
  order of the array), and the engine's \<open>TypeError\<close> messages.
\<close>

record world =
  typeErrorMessage :: "string \<Rightarrow> string"
  reader_dataURL :: "js_file \<Rightarrow> thrown + string"
  reader_text :: "js_file \<Rightarrow> thrown + string"
  analyzeCv_op :: "AnalyzeCvInput \<Rightarrow> thrown + AnalyzeCvOutput"
  analyzeJobDescription_op :: "AnalyzeJobDescriptionInput \<Rightarrow> thrown + AnalyzeJobDescriptionOutput"
  matchCvToJob_op :: "MatchCvToJobInput \<Rightarrow> thrown + MatchCvToJobOutput"
  settled :: "op_id list"

text \<open>The result of running an event handler.\<close>

record outcome =
  page :: page_state
  calls :: "remote_call list"
  console :: "log_entry list"
  uncaught :: "thrown option"

subsection \<open>Reading the file\<close>

definition readFileAsDataURL :: "world \<Rightarrow> js_file \<Rightarrow> thrown + string" where
  "readFileAsDataURL w f = reader_dataURL w f"

definition readFileAsText :: "world \<Rightarrow> js_file \<Rightarrow> thrown + string" where
  "readFileAsText w f = reader_text w f"

definition placeholder :: string where
  "placeholder = ''Could not extract text content from this file type for matching. Please use a .txt file for optimal matching analysis or copy/paste CV text.''"

text \<open>The assignment of \<open>cvTextContent\<close> in \<open>onSubmitHandler\<close>, with its inner \<open>try\<close>.\<close>

definition read_cvTextContent :: "world \<Rightarrow> js_file \<Rightarrow> log_entry list \<times> (thrown + string)" where
  "read_cvTextContent w f =
     (if file_type f = ''text/plain''
      then ([], readFileAsText w f)
      else (case readFileAsText w f of
              Inr text \<Rightarrow> ([], Inr text)
            | Inl textReadError \<Rightarrow>
                ([ConsoleWarn ''Could not read file as text:'' textReadError], Inr placeholder)))"

subsection \<open>\<open>Promise.all\<close>\<close>

fun rejection :: "thrown + 'a \<Rightarrow> thrown list" where
  "rejection (Inl e) = [e]"
| "rejection (Inr v) = []"

definition rejections_in_order ::
  "op_id list \<Rightarrow> thrown + 'a \<Rightarrow> thrown + 'b \<Rightarrow> thrown + 'c \<Rightarrow> thrown list" where
  "rejections_in_order order r1 r2 r3 =
     concat (map (\<lambda>op. case op of
                          OpAnalyzeCv \<Rightarrow> rejection r1
                        | OpAnalyzeJobDescription \<Rightarrow> rejection r2
                        | OpMatchCvToJob \<Rightarrow> rejection r3)
                 (order @ [OpAnalyzeCv, OpAnalyzeJobDescription, OpMatchCvToJob]))"

text \<open>
  \<open>Promise.all\<close> rejects with the reason of the first promise that rejects, and is
  fulfilled with all the values when none does.
\<close>

definition promise_all ::
  "op_id list \<Rightarrow> thrown + 'a \<Rightarrow> thrown + 'b \<Rightarrow> thrown + 'c \<Rightarrow> thrown + ('a \<times> 'b \<times> 'c)" where
  "promise_all order r1 r2 r3 =
     (case rejections_in_order order r1 r2 r3 of
        e # _ \<Rightarrow> Inl e
      | [] \<Rightarrow>
          (case r1 of
             Inl e \<Rightarrow> Inl e
           | Inr a \<Rightarrow>
               (case r2 of
                  Inl e \<Rightarrow> Inl e
                | Inr j \<Rightarrow> (case r3 of Inl e \<Rightarrow> Inl e | Inr m \<Rightarrow> Inr (a, j, m)))))"

subsection \<open>\<open>onSubmitHandler\<close>, \<open>handleSubmit\<close> and \<open>handleReset\<close>\<close>

text \<open>
  The body of the \<open>try\<close> block: the remote calls made, the console output, and how the
  block ends. \<open>data.cvFile[0]\<close> throws on an \<open>undefined\<close> list; on an empty one it is
  \<open>undefined\<close>, which \<open>readAsDataURL\<close> refuses with a \<open>TypeError\<close>.
\<close>

definition try_block ::
  "world \<Rightarrow> FormValues \<Rightarrow>
     remote_call list \<times> log_entry list
       \<times> (thrown + (AnalyzeCvOutput \<times> AnalyzeJobDescriptionOutput \<times> MatchCvToJobOutput))" where
  "try_block w data =
     (case cvFile data of
        None \<Rightarrow> ([], [], Inl (JsError (typeErrorMessage w ''data.cvFile[0]'')))
      | Some [] \<Rightarrow> ([], [], Inl (JsError (typeErrorMessage w ''reader.readAsDataURL(file)'')))
      | Some (cvFile0 # _) \<Rightarrow>
          (case readFileAsDataURL w cvFile0 of
             Inl e \<Rightarrow> ([], [], Inl e)
           | Inr cvDataUri0 \<Rightarrow>
               (case read_cvTextContent w cvFile0 of
                  (warned, Inl e) \<Rightarrow> ([], warned, Inl e)
                | (warned, Inr cvTextContent) \<Rightarrow>
                    (let i1 = \<lparr>cvDataUri = cvDataUri0\<rparr>;
                         i2 = \<lparr>job_jobDescription = jobDescription data\<rparr>;
                         i3 = \<lparr>match_jobDescription = jobDescription data,
                               cvContent = cvTextContent\<rparr>;
                         (log1, r1) = analyzeCvAction (analyzeCv_op w) i1;
                         (log2, r2) = analyzeJobDescriptionAction (analyzeJobDescription_op w) i2;
                         (log3, r3) = matchCvToJobAction (matchCvToJob_op w) i3
                     in ([AnalyzeCvCall i1, AnalyzeJobDescriptionCall i2, MatchCvToJobCall i3],
                         warned @ log1 @ log2 @ log3,
                         promise_all (settled w) r1 r2 r3)))))"

text \<open>\<open>e.message || "An unexpected error occurred. Please try again."\<close>\<close>

definition message_or_default :: "thrown \<Rightarrow> string" where
  "message_or_default e =
     (case e of
        JsError m \<Rightarrow> (if m = [] then ''An unexpected error occurred. Please try again.'' else m)
      | NonError \<Rightarrow> ''An unexpected error occurred. Please try again.'')"

definition onSubmitHandler :: "world \<Rightarrow> page_state \<Rightarrow> FormValues \<Rightarrow> outcome" where
  "onSubmitHandler w st data =
     (let st1 = st\<lparr>isLoading := True, error := None, cvAnalysis := None,
                   jobAnalysis := None, matchResult := None\<rparr>
      in case try_block w data of
           (cs, logged, Inr (cvAnalysisResult, jobAnalysisResult, matchResultData)) \<Rightarrow>
             \<lparr>page = st1\<lparr>cvAnalysis := Some cvAnalysisResult,
                         jobAnalysis := Some jobAnalysisResult,
                         matchResult := Some matchResultData,
                         isLoading := False\<rparr>,
              calls = cs, console = logged, uncaught = None\<rparr>
         | (cs, logged, Inl e) \<Rightarrow>
             \<lparr>page = st1\<lparr>error := Some (message_or_default e), isLoading := False\<rparr>,
              calls = cs, console = logged @ [ConsoleError ''Processing error:'' e],
              uncaught = None\<rparr>)"

text \<open>
  \<open>handleSubmit(onSubmitHandler)\<close> of react-hook-form: it awaits the resolver, stores its
  errors, and calls the handler only when there are none. It does not catch what the
  resolver throws: the promise of the event handler rejects, nothing is stored and the
  handler is not called.
\<close>

definition handleSubmit :: "world \<Rightarrow> page_state \<Rightarrow> FormValues \<Rightarrow> outcome" where
  "handleSubmit w st data =
     (case zodResolver (typeErrorMessage w) data of
        Inl e \<Rightarrow> \<lparr>page = st, calls = [], console = [], uncaught = Some e\<rparr>
      | Inr errs \<Rightarrow>
          (if errs = no_errors
           then onSubmitHandler w (st\<lparr>errors := errs\<rparr>) data
           else \<lparr>page = st\<lparr>errors := errs\<rparr>, calls = [], console = [], uncaught = None\<rparr>))"

text \<open>\<open>reset()\<close> of react-hook-form clears the form's values and errors.\<close>

definition handleReset :: "page_state \<Rightarrow> page_state" where
  "handleReset st =
     st\<lparr>errors := no_errors, cvAnalysis := None, jobAnalysis := None, matchResult := None,
        error := None, fileName := None, isLoading := False\<rparr>"

subsection \<open>Rendering\<close>

text \<open>\<open>{error && <Alert>...{error}</Alert>}\<close>: the empty string is falsy.\<close>

definition error_alert :: "page_state \<Rightarrow> string option" where
  "error_alert st = (case error st of None \<Rightarrow> None | Some m \<Rightarrow> (if m = [] then None else Some m))"

text \<open>\<open>s.replace(/\n/g, '<br />')\<close>: a left-to-right scan that replaces each line feed.\<close>

fun replace_newlines :: "string \<Rightarrow> string" where
  "replace_newlines [] = []"
| "replace_newlines (c # cs) =
     (if c = CHR 0x0A then ''<br />'' @ replace_newlines cs else c # replace_newlines cs)"

text \<open>The \<open>__html\<close> given to \<open>dangerouslySetInnerHTML\<close>, when the match panel is rendered.\<close>

definition highlighted_html :: "page_state \<Rightarrow> string option" where
  "highlighted_html st =
     (case matchResult st of
        None \<Rightarrow> None
      | Some r \<Rightarrow> Some (replace_newlines (highlightedCv r)))"

subsection \<open>What the specification says, as definitions\<close>

text \<open>
  The serialised form of the typed answers, to compare an answer with its schema.
\<close>

definition json_of_AnalyzeCvOutput :: "AnalyzeCvOutput \<Rightarrow> json" where
  "json_of_AnalyzeCvOutput v =
     JObject [(''skills'', JArray (map JString (skills v))),
              (''experience'', JString (experience v)),
              (''qualifications'', JString (qualifications v))]"

definition json_of_MatchCvToJobOutput :: "MatchCvToJobOutput \<Rightarrow> json" where
  "json_of_MatchCvToJobOutput v =
     JObject [(''matchScore'', JNumber (matchScore v)),
              (''highlightedCv'', JString (highlightedCv v)),
              (''colorCode'', JString (colorCode v))]"

text \<open>The backend has no conforming answer: its output is absent or breaks the schema.\<close>

definition no_conforming_answer :: "zschema \<Rightarrow> thrown + json option \<Rightarrow> bool" where
  "no_conforming_answer schema r =
     (case r of
        Inl e \<Rightarrow> False
      | Inr None \<Rightarrow> True
      | Inr (Some j) \<Rightarrow> \<not> conforms schema j)"

text \<open>The fixed thresholds of the specification (3): above 75 green, 51 to 75 orange, at most 50 red.\<close>

definition spec_colorCode :: "rat \<Rightarrow> string" where
  "spec_colorCode score =
     (if score > 75 then ''green'' else if score > 50 then ''orange'' else ''red'')"

text \<open>An integer from 0 to 100.\<close>

definition spec_is_score :: "rat \<Rightarrow> bool" where
  "spec_is_score n = (of_int \<lfloor>n\<rfloor> = n \<and> 0 \<le> n \<and> n \<le> 100)"

text \<open>Every line feed replaced by \<open><br />\<close>, every other character kept.\<close>

definition spec_newlines_to_br :: "string \<Rightarrow> string" where
  "spec_newlines_to_br s = concat (map (\<lambda>c. if c = CHR 0x0A then ''<br />'' else [c]) s)"

text \<open>An operation behind an action rejects on the request that a call carries.\<close>

fun rejects :: "world \<Rightarrow> remote_call \<Rightarrow> bool" where
  "rejects w (AnalyzeCvCall i) = isl (analyzeCv_op w i)"
| "rejects w (AnalyzeJobDescriptionCall i) = isl (analyzeJobDescription_op w i)"
| "rejects w (MatchCvToJobCall i) = isl (matchCvToJob_op w i)"

subsection \<open>Example inputs\<close>

definition example_jobDescription :: string where
  "example_jobDescription = ''Senior verification engineer, proof assistants, remote (EU)''"

definition txt_file :: js_file where
  "txt_file = \<lparr>file_name = ''cv.txt'', file_size = 2048, file_type = ''text/plain''\<rparr>"

definition pdf_file :: js_file where
  "pdf_file = \<lparr>file_name = ''cv.pdf'', file_size = 2048, file_type = ''application/pdf''\<rparr>"

definition example_match :: MatchCvToJobOutput where
  "example_match = \<lparr>matchScore = 80, highlightedCv = [CHR ''a'', CHR 0x0A, CHR ''<''], colorCode = ''green''\<rparr>"

text \<open>A world in which files are read and all three operations answer.\<close>

definition example_world :: world where
  "example_world =
     \<lparr>typeErrorMessage = (\<lambda>x. ''TypeError at '' @ x),
      reader_dataURL = (\<lambda>f. Inr ''data:text/plain;base64,SGk=''),
      reader_text = (\<lambda>f. Inr ''Hi''),
      analyzeCv_op = (\<lambda>i. Inr \<lparr>skills = [''HOL''], experience = ''x'', qualifications = ''y''\<rparr>),
      analyzeJobDescription_op =
        (\<lambda>i. Inr \<lparr>requiredSkills = [''HOL''], requiredExperience = ''x'',
                   requiredQualifications = ''y''\<rparr>),
      matchCvToJob_op = (\<lambda>i. Inr example_match),
      settled = []\<rparr>"

text \<open>The same world, except that decoding a file as text fails.\<close>

definition unreadable_world :: world where
  "unreadable_world = example_world\<lparr>reader_text := (\<lambda>f. Inl NonError)\<rparr>"

text \<open>The same world, except that the job-description analysis is unreachable.\<close>

definition failing_world :: world where
  "failing_world =
     example_world\<lparr>analyzeJobDescription_op := (\<lambda>i. Inl (JsError ''backend unreachable''))\<rparr>"

text \<open>Backends for the match prompt: a high score paired with red, and a score of 150.\<close>

definition red_at_100 :: "MatchCvToJobInput \<Rightarrow> thrown + json option" where
  "red_at_100 input =
     Inr (Some (JObject [(''matchScore'', JNumber 100), (''highlightedCv'', JString ''cv''),
                         (''colorCode'', JString ''red'')]))"

definition score_150 :: "MatchCvToJobInput \<Rightarrow> thrown + json option" where
  "score_150 input =
     Inr (Some (JObject [(''matchScore'', JNumber 150), (''highlightedCv'', JString ''cv''),
                         (''colorCode'', JString ''green'')]))"

definition no_answer :: "'i \<Rightarrow> thrown + json option" where
  "no_answer input = Inr None"

definition example_match_input :: MatchCvToJobInput where
  "example_match_input = \<lparr>match_jobDescription = example_jobDescription, cvContent = ''Hi''\<rparr>"

definition unknown_failure :: "'i \<Rightarrow> thrown + 'o" where
  "unknown_failure input = Inl NonError"

lemmas example_defs =
  example_world_def failing_world_def unreadable_world_def txt_file_def pdf_file_def
  example_match_def

lemmas handler_defs =
  onSubmitHandler_def try_block_def readFileAsDataURL_def readFileAsText_def
  read_cvTextContent_def analyzeCvAction_def analyzeJobDescriptionAction_def
  matchCvToJobAction_def promise_all_def rejections_in_order_def message_or_default_def

lemmas validation_defs =
  handleSubmit_def zodResolver_def formSchema_def cvFile_is_required_def cvFile_size_ok_def
  cvFile_type_ok_def first_message_def no_errors_def

lemmas flow_defs =
  matchCvToJob_def matchCvToJobFlow_def analyzeCv_def analyzeCvFlow_def defineFlow_def
  MatchCvToJobOutputSchema_def AnalyzeCvOutputSchema_def as_MatchCvToJobOutput_def
  as_AnalyzeCvOutput_def

section \<open>The flows\<close>

subsection \<open>Typed views and their schemas\<close>

lemma as_strings_conforms:
  "as_strings xs = Some ss \<Longrightarrow> list_all (conforms ZString) (map JString ss)"
  by (induction xs arbitrary: ss rule: as_strings.induct) (auto split: option.splits)

lemma json_of_AnalyzeCvOutput_conforms:
  assumes "as_AnalyzeCvOutput j = Some v"
  shows "conforms AnalyzeCvOutputSchema (json_of_AnalyzeCvOutput v)"
proof -
  from assms obtain props xs where "as_strings xs = Some (skills v)"
    by (auto simp: as_AnalyzeCvOutput_def split: json.splits option.splits)
  then have "list_all (conforms ZString) (map JString (skills v))"
    by (rule as_strings_conforms)
  then show ?thesis
    by (simp add: AnalyzeCvOutputSchema_def json_of_AnalyzeCvOutput_def)
qed

lemma as_MatchCvToJobOutput_fields:
  assumes "as_MatchCvToJobOutput j = Some v"
  shows "\<exists>props. j = JObject props
           \<and> map_of props ''matchScore'' = Some (JNumber (matchScore v))
           \<and> map_of props ''highlightedCv'' = Some (JString (highlightedCv v))
           \<and> map_of props ''colorCode'' = Some (JString (colorCode v))"
  using assms
  by (auto simp: as_MatchCvToJobOutput_def split: json.splits option.splits)

lemma conforms_colorCode:
  assumes "conforms MatchCvToJobOutputSchema (JObject props)"
    and "map_of props ''colorCode'' = Some (JString c)"
  shows "c = ''green'' \<or> c = ''orange'' \<or> c = ''red''"
  using assms by (simp add: MatchCvToJobOutputSchema_def)

lemma json_of_MatchCvToJobOutput_conforms:
  assumes "as_MatchCvToJobOutput j = Some v" and "conforms MatchCvToJobOutputSchema j"
  shows "conforms MatchCvToJobOutputSchema (json_of_MatchCvToJobOutput v)"
proof -
  from assms(1) obtain props where j: "j = JObject props"
    and c: "map_of props ''colorCode'' = Some (JString (colorCode v))"
    using as_MatchCvToJobOutput_fields by blast
  from assms(2) j c have "colorCode v = ''green'' \<or> colorCode v = ''orange'' \<or> colorCode v = ''red''"
    using conforms_colorCode by blast
  then show ?thesis
    by (auto simp: MatchCvToJobOutputSchema_def json_of_MatchCvToJobOutput_def)
qed

subsection \<open>What a flow returns\<close>

lemma defineFlow_Inr:
  assumes "defineFlow failure schema view body input = Inr v"
  shows "\<exists>j. body input = Inr (Some j) \<and> conforms schema j \<and> view j = Some v"
  using assms
  by (auto simp: defineFlow_def split: sum.splits option.splits if_splits)

lemma defineFlow_no_answer:
  assumes "no_conforming_answer schema (body input)"
  shows "defineFlow failure schema view body input = Inl (JsError failure)"
  using assms
  by (auto simp: defineFlow_def no_conforming_answer_def split: sum.splits option.splits)

lemma flow_body_id: "(case r of Inl e \<Rightarrow> Inl e | Inr output \<Rightarrow> Inr output) = r"
  by (cases r) simp_all

lemma matchCvToJob_Inr:
  assumes "matchCvToJob failure p i = Inr v"
  shows "\<exists>j. p i = Inr (Some j) \<and> conforms MatchCvToJobOutputSchema j
            \<and> as_MatchCvToJobOutput j = Some v"
  using defineFlow_Inr [of failure MatchCvToJobOutputSchema as_MatchCvToJobOutput _ i v] assms
  by (simp add: matchCvToJob_def matchCvToJobFlow_def flow_body_id)

lemma analyzeCv_Inr:
  assumes "analyzeCv failure p i = Inr v"
  shows "\<exists>j. p i = Inr (Some j) \<and> conforms AnalyzeCvOutputSchema j
            \<and> as_AnalyzeCvOutput j = Some v"
  using defineFlow_Inr [of failure AnalyzeCvOutputSchema as_AnalyzeCvOutput _ i v] assms
  by (simp add: analyzeCv_def analyzeCvFlow_def flow_body_id)

text \<open>
  C3. Each prompt-bound operation, \<open>analyzeCv\<close> and \<open>matchCvToJob\<close>, either fails with an
  error or returns an answer that conforms to its declared output schema; and when the
  backend has no conforming answer (its output is absent or breaks the schema) the
  operation fails with the generic error. The schema check is the one the specification
  ascribes to the flow layer, whose module is not among the sources.
\<close>

theorem flows_conform_or_fail:
  "((\<exists>e. analyzeCv failure p i = Inl e)
      \<or> (\<exists>v. analyzeCv failure p i = Inr v
             \<and> conforms AnalyzeCvOutputSchema (json_of_AnalyzeCvOutput v)))
   \<and> ((\<exists>e. matchCvToJob failure q k = Inl e)
      \<or> (\<exists>v. matchCvToJob failure q k = Inr v
             \<and> conforms MatchCvToJobOutputSchema (json_of_MatchCvToJobOutput v)))
   \<and> (no_conforming_answer AnalyzeCvOutputSchema (p i)
        \<longrightarrow> analyzeCv failure p i = Inl (JsError failure))
   \<and> (no_conforming_answer MatchCvToJobOutputSchema (q k)
        \<longrightarrow> matchCvToJob failure q k = Inl (JsError failure))"
proof (intro conjI impI)
  show "(\<exists>e. analyzeCv failure p i = Inl e)
      \<or> (\<exists>v. analyzeCv failure p i = Inr v
             \<and> conforms AnalyzeCvOutputSchema (json_of_AnalyzeCvOutput v))"
  proof (cases "analyzeCv failure p i")
    case (Inl e)
    then show ?thesis by simp
  next
    case (Inr v)
    then show ?thesis
      using analyzeCv_Inr json_of_AnalyzeCvOutput_conforms by blast
  qed
  show "(\<exists>e. matchCvToJob failure q k = Inl e)
      \<or> (\<exists>v. matchCvToJob failure q k = Inr v
             \<and> conforms MatchCvToJobOutputSchema (json_of_MatchCvToJobOutput v))"
  proof (cases "matchCvToJob failure q k")
    case (Inl e)
    then show ?thesis by simp
  next
    case (Inr v)
    then show ?thesis
      using matchCvToJob_Inr json_of_MatchCvToJobOutput_conforms by blast
  qed
next
  assume "no_conforming_answer AnalyzeCvOutputSchema (p i)"
  then show "analyzeCv failure p i = Inl (JsError failure)"
    by (simp add: analyzeCv_def analyzeCvFlow_def flow_body_id defineFlow_no_answer)
next
  assume "no_conforming_answer MatchCvToJobOutputSchema (q k)"
  then show "matchCvToJob failure q k = Inl (JsError failure)"
    by (simp add: matchCvToJob_def matchCvToJobFlow_def flow_body_id defineFlow_no_answer)
qed

theorem flows_conform_or_fail_witness:
  "no_conforming_answer AnalyzeCvOutputSchema (no_answer \<lparr>cvDataUri = ''data:text/plain;base64,SGk=''\<rparr>)
   \<and> analyzeCv ''no valid output'' no_answer \<lparr>cvDataUri = ''data:text/plain;base64,SGk=''\<rparr>
       = Inl (JsError ''no valid output'')
   \<and> no_conforming_answer MatchCvToJobOutputSchema (no_answer example_match_input)
   \<and> matchCvToJob ''no valid output'' no_answer example_match_input
       = Inl (JsError ''no valid output'')"
  using flows_conform_or_fail [of "''no valid output''" no_answer
      "\<lparr>cvDataUri = ''data:text/plain;base64,SGk=''\<rparr>" no_answer example_match_input]
  by (simp add: no_conforming_answer_def no_answer_def)

subsection \<open>Score and color code\<close>

text \<open>
  C1, as stated, fails: a backend that answers with the score 100 and the color code red
  conforms to the schema, and \<open>matchCvToJob\<close> returns this answer, although the thresholds
  give green for 100.
\<close>

theorem color_agreement_counterexample:
  "matchCvToJob ''no valid output'' red_at_100 example_match_input
     = Inr \<lparr>matchScore = 100, highlightedCv = ''cv'', colorCode = ''red''\<rparr>
   \<and> spec_colorCode 100 \<noteq> ''red''"
  by (simp add: flow_defs red_at_100_def spec_colorCode_def)

text \<open>
  C1, amended. For every successful match response the color code is one of green,
  orange and red, and it is the color code of the backend's answer, returned unchanged
  next to the score of that answer: nothing recomputes it from the score.
\<close>

theorem color_is_the_backends:
  assumes "matchCvToJob failure p i = Inr v"
  shows "(colorCode v = ''green'' \<or> colorCode v = ''orange'' \<or> colorCode v = ''red'')
         \<and> (\<exists>props. p i = Inr (Some (JObject props))
               \<and> map_of props ''colorCode'' = Some (JString (colorCode v))
               \<and> map_of props ''matchScore'' = Some (JNumber (matchScore v)))"
proof -
  from assms obtain j where j: "p i = Inr (Some j)" "conforms MatchCvToJobOutputSchema j"
      "as_MatchCvToJobOutput j = Some v"
    using matchCvToJob_Inr by blast
  from j(3) obtain props where props: "j = JObject props"
      "map_of props ''matchScore'' = Some (JNumber (matchScore v))"
      "map_of props ''colorCode'' = Some (JString (colorCode v))"
    using as_MatchCvToJobOutput_fields by blast
  from j(2) props(1,3) have "colorCode v = ''green'' \<or> colorCode v = ''orange'' \<or> colorCode v = ''red''"
    using conforms_colorCode by blast
  with j(1) props show ?thesis by blast
qed

theorem color_is_the_backends_witness:
  "matchCvToJob ''no valid output'' red_at_100 example_match_input
     = Inr \<lparr>matchScore = 100, highlightedCv = ''cv'', colorCode = ''red''\<rparr>
   \<and> (\<exists>props. red_at_100 example_match_input = Inr (Some (JObject props))
         \<and> map_of props ''colorCode'' = Some (JString ''red'')
         \<and> map_of props ''matchScore'' = Some (JNumber 100))"
proof -
  have run: "matchCvToJob ''no valid output'' red_at_100 example_match_input
     = Inr \<lparr>matchScore = 100, highlightedCv = ''cv'', colorCode = ''red''\<rparr>"
    by (simp add: flow_defs red_at_100_def)
  from color_is_the_backends [OF run] run show ?thesis by simp
qed

text \<open>
  C6, as stated, fails: the schema declares the score as \<open>z.number()\<close> and names the range
  only in its description, so a backend answer with the score 150 conforms and is
  returned.
\<close>

theorem score_range_counterexample:
  "matchCvToJob ''no valid output'' score_150 example_match_input
     = Inr \<lparr>matchScore = 150, highlightedCv = ''cv'', colorCode = ''green''\<rparr>
   \<and> \<not> spec_is_score 150"
  by (simp add: flow_defs score_150_def spec_is_score_def)

text \<open>
  C6, amended. For every successful match response the match score is the number that
  the backend's answer carries as \<open>matchScore\<close>, unchanged; it is an integer from 0 to 100
  exactly when the backend's number is one.
\<close>

theorem score_is_the_backends_number:
  assumes "matchCvToJob failure p i = Inr v"
  shows "\<exists>props. p i = Inr (Some (JObject props))
           \<and> map_of props ''matchScore'' = Some (JNumber (matchScore v))
           \<and> (spec_is_score (matchScore v)
                \<longleftrightarrow> (\<exists>n. map_of props ''matchScore'' = Some (JNumber n) \<and> spec_is_score n))"
proof -
  from assms obtain j where j: "p i = Inr (Some j)" "as_MatchCvToJobOutput j = Some v"
    using matchCvToJob_Inr by blast
  from j(2) obtain props where props: "j = JObject props"
      "map_of props ''matchScore'' = Some (JNumber (matchScore v))"
    using as_MatchCvToJobOutput_fields by blast
  with j(1) show ?thesis by auto
qed

theorem score_is_the_backends_number_witness:
  "matchCvToJob ''no valid output'' score_150 example_match_input
     = Inr \<lparr>matchScore = 150, highlightedCv = ''cv'', colorCode = ''green''\<rparr>
   \<and> (\<exists>props. score_150 example_match_input = Inr (Some (JObject props))
         \<and> map_of props ''matchScore'' = Some (JNumber 150))"
proof -
  have run: "matchCvToJob ''no valid output'' score_150 example_match_input
     = Inr \<lparr>matchScore = 150, highlightedCv = ''cv'', colorCode = ''green''\<rparr>"
    by (simp add: flow_defs score_150_def)
  from score_is_the_backends_number [OF run] run show ?thesis by auto
qed

section \<open>The server actions\<close>

text \<open>
  C5. When the operation behind an action throws, the action logs the thrown value and
  fails with a new error. Its message is \<open>Failed to <operation>: <message>\<close> when the
  thrown value is an \<open>Error\<close>, which carries a message, and the unknown-error message of
  the operation for any other thrown value.
\<close>

theorem actions_translate_errors:
  "(cvOp i1 = Inl e1 \<longrightarrow>
      analyzeCvAction cvOp i1
        = ([ConsoleError ''Error in analyzeCvAction:'' e1],
           Inl (JsError (spec_failure_message ''analyze CV'' e1))))
   \<and> (jobOp i2 = Inl e2 \<longrightarrow>
      analyzeJobDescriptionAction jobOp i2
        = ([ConsoleError ''Error in analyzeJobDescriptionAction:'' e2],
           Inl (JsError (spec_failure_message ''analyze job description'' e2))))
   \<and> (matchOp i3 = Inl e3 \<longrightarrow>
      matchCvToJobAction matchOp i3
        = ([ConsoleError ''Error in matchCvToJobAction:'' e3],
           Inl (JsError (spec_failure_message ''match CV to job'' e3))))"
proof (intro conjI impI)
  assume "cvOp i1 = Inl e1"
  then show "analyzeCvAction cvOp i1
        = ([ConsoleError ''Error in analyzeCvAction:'' e1],
           Inl (JsError (spec_failure_message ''analyze CV'' e1)))"
    by (cases e1) (simp_all add: analyzeCvAction_def spec_failure_message_def)
next
  assume "jobOp i2 = Inl e2"
  then show "analyzeJobDescriptionAction jobOp i2
        = ([ConsoleError ''Error in analyzeJobDescriptionAction:'' e2],
           Inl (JsError (spec_failure_message ''analyze job description'' e2)))"
    by (cases e2) (simp_all add: analyzeJobDescriptionAction_def spec_failure_message_def)
next
  assume "matchOp i3 = Inl e3"
  then show "matchCvToJobAction matchOp i3
        = ([ConsoleError ''Error in matchCvToJobAction:'' e3],
           Inl (JsError (spec_failure_message ''match CV to job'' e3)))"
    by (cases e3) (simp_all add: matchCvToJobAction_def spec_failure_message_def)
qed

theorem actions_translate_errors_witness:
  "analyzeJobDescription_op failing_world \<lparr>job_jobDescription = example_jobDescription\<rparr>
     = Inl (JsError ''backend unreachable'')
   \<and> analyzeJobDescriptionAction (analyzeJobDescription_op failing_world)
        \<lparr>job_jobDescription = example_jobDescription\<rparr>
     = ([ConsoleError ''Error in analyzeJobDescriptionAction:'' (JsError ''backend unreachable'')],
        Inl (JsError ''Failed to analyze job description: backend unreachable''))
   \<and> unknown_failure \<lparr>cvDataUri = ''data:text/plain;base64,SGk=''\<rparr> = Inl NonError
   \<and> analyzeCvAction unknown_failure \<lparr>cvDataUri = ''data:text/plain;base64,SGk=''\<rparr>
     = ([ConsoleError ''Error in analyzeCvAction:'' NonError],
        Inl (JsError ''Failed to analyze CV due to an unknown error.''))
   \<and> unknown_failure example_match_input = Inl NonError
   \<and> matchCvToJobAction unknown_failure example_match_input
     = ([ConsoleError ''Error in matchCvToJobAction:'' NonError],
        Inl (JsError ''Failed to match CV to job due to an unknown error.''))"
  using actions_translate_errors
    [of unknown_failure "\<lparr>cvDataUri = ''data:text/plain;base64,SGk=''\<rparr>" NonError
        "analyzeJobDescription_op failing_world"
        "\<lparr>job_jobDescription = example_jobDescription\<rparr>" "JsError ''backend unreachable''"
        unknown_failure example_match_input NonError]
  by (simp add: unknown_failure_def failing_world_def example_world_def spec_failure_message_def)

lemma snd_analyzeCvAction_Inr:
  "snd (analyzeCvAction op i) = Inr v \<longleftrightarrow> op i = Inr v"
  by (auto simp: analyzeCvAction_def split: sum.splits thrown.splits)

lemma snd_analyzeJobDescriptionAction_Inr:
  "snd (analyzeJobDescriptionAction op i) = Inr v \<longleftrightarrow> op i = Inr v"
  by (auto simp: analyzeJobDescriptionAction_def split: sum.splits thrown.splits)

lemma snd_matchCvToJobAction_Inr:
  "snd (matchCvToJobAction op i) = Inr v \<longleftrightarrow> op i = Inr v"
  by (auto simp: matchCvToJobAction_def split: sum.splits thrown.splits)

section \<open>The page\<close>

subsection \<open>\<open>Promise.all\<close> and the \<open>try\<close> block\<close>

lemma rejections_in_order_Nil:
  assumes "rejections_in_order order r1 r2 r3 = []"
  shows "(\<exists>a. r1 = Inr a) \<and> (\<exists>j. r2 = Inr j) \<and> (\<exists>m. r3 = Inr m)"
proof -
  from assms have "rejection r1 = [] \<and> rejection r2 = [] \<and> rejection r3 = []"
    by (simp add: rejections_in_order_def)
  then show ?thesis
    by (cases r1; cases r2; cases r3) simp_all
qed

lemma promise_all_Inr:
  assumes "promise_all order r1 r2 r3 = Inr (a, j, m)"
  shows "r1 = Inr a \<and> r2 = Inr j \<and> r3 = Inr m"
proof -
  from assms have "rejections_in_order order r1 r2 r3 = []"
    by (auto simp: promise_all_def split: list.splits)
  with assms show ?thesis
    by (auto simp: promise_all_def split: sum.splits)
qed

text \<open>The two ways in which the \<open>try\<close> block can run.\<close>

lemma try_block_cases:
  obtains (stopped) warned e where "try_block w data = ([], warned, Inl e)"
  | (called) f fs uri warned cvText where
      "cvFile data = Some (f # fs)"
      "readFileAsDataURL w f = Inr uri"
      "read_cvTextContent w f = (warned, Inr cvText)"
      "try_block w data =
         ([AnalyzeCvCall \<lparr>cvDataUri = uri\<rparr>,
           AnalyzeJobDescriptionCall \<lparr>job_jobDescription = jobDescription data\<rparr>,
           MatchCvToJobCall \<lparr>match_jobDescription = jobDescription data, cvContent = cvText\<rparr>],
          warned
            @ fst (analyzeCvAction (analyzeCv_op w) \<lparr>cvDataUri = uri\<rparr>)
            @ fst (analyzeJobDescriptionAction (analyzeJobDescription_op w)
                     \<lparr>job_jobDescription = jobDescription data\<rparr>)
            @ fst (matchCvToJobAction (matchCvToJob_op w)
                     \<lparr>match_jobDescription = jobDescription data, cvContent = cvText\<rparr>),
          promise_all (settled w)
            (snd (analyzeCvAction (analyzeCv_op w) \<lparr>cvDataUri = uri\<rparr>))
            (snd (analyzeJobDescriptionAction (analyzeJobDescription_op w)
                     \<lparr>job_jobDescription = jobDescription data\<rparr>))
            (snd (matchCvToJobAction (matchCvToJob_op w)
                     \<lparr>match_jobDescription = jobDescription data, cvContent = cvText\<rparr>)))"
proof (cases "cvFile data")
  case None
  then have "try_block w data = ([], [], Inl (JsError (typeErrorMessage w ''data.cvFile[0]'')))"
    by (simp add: try_block_def)
  then show ?thesis by (rule stopped)
next
  case (Some files)
  show ?thesis
  proof (cases files)
    case Nil
    with Some have "try_block w data
        = ([], [], Inl (JsError (typeErrorMessage w ''reader.readAsDataURL(file)'')))"
      by (simp add: try_block_def)
    then show ?thesis by (rule stopped)
  next
    case (Cons f fs)
    note files = Some Cons
    show ?thesis
    proof (cases "readFileAsDataURL w f")
      case (Inl e)
      with files have "try_block w data = ([], [], Inl e)"
        by (simp add: try_block_def)
      then show ?thesis by (rule stopped)
    next
      case (Inr uri)
      obtain warned r where r: "read_cvTextContent w f = (warned, r)"
        by (cases "read_cvTextContent w f")
      show ?thesis
      proof (cases r)
        case (Inl e)
        with files Inr r have "try_block w data = ([], warned, Inl e)"
          by (simp add: try_block_def)
        then show ?thesis by (rule stopped)
      next
        case cvText: (Inr cvText)
        from files Inr r cvText show ?thesis
          by (intro called [of f fs uri warned cvText])
             (simp_all add: try_block_def Let_def split: prod.splits)
      qed
    qed
  qed
qed

lemma message_or_default_nonempty: "message_or_default e \<noteq> []"
  by (simp add: message_or_default_def split: thrown.splits)

lemma try_block_rejected:
  assumes "c \<in> set (fst (try_block w data))" and "rejects w c"
  shows "\<exists>e. snd (snd (try_block w data)) = Inl e"
proof (cases w data rule: try_block_cases)
  case (stopped warned e)
  with assms(1) show ?thesis by simp
next
  case (called f fs uri warned cvText)
  let ?r1 = "snd (analyzeCvAction (analyzeCv_op w) \<lparr>cvDataUri = uri\<rparr>)"
  let ?r2 = "snd (analyzeJobDescriptionAction (analyzeJobDescription_op w)
                     \<lparr>job_jobDescription = jobDescription data\<rparr>)"
  let ?r3 = "snd (matchCvToJobAction (matchCvToJob_op w)
                     \<lparr>match_jobDescription = jobDescription data, cvContent = cvText\<rparr>)"
  from assms called(4) have some:
    "isl (analyzeCv_op w \<lparr>cvDataUri = uri\<rparr>)
     \<or> isl (analyzeJobDescription_op w \<lparr>job_jobDescription = jobDescription data\<rparr>)
     \<or> isl (matchCvToJob_op w \<lparr>match_jobDescription = jobDescription data, cvContent = cvText\<rparr>)"
    by auto
  have "\<exists>e. promise_all (settled w) ?r1 ?r2 ?r3 = Inl e"
  proof (cases "promise_all (settled w) ?r1 ?r2 ?r3")
    case (Inl e)
    then show ?thesis by blast
  next
    case (Inr x)
    obtain a j m where "x = (a, j, m)" by (cases x)
    with Inr have "promise_all (settled w) ?r1 ?r2 ?r3 = Inr (a, j, m)" by simp
    then have "?r1 = Inr a \<and> ?r2 = Inr j \<and> ?r3 = Inr m"
      by (rule promise_all_Inr)
    then have "analyzeCv_op w \<lparr>cvDataUri = uri\<rparr> = Inr a
        \<and> analyzeJobDescription_op w \<lparr>job_jobDescription = jobDescription data\<rparr> = Inr j
        \<and> matchCvToJob_op w \<lparr>match_jobDescription = jobDescription data, cvContent = cvText\<rparr> = Inr m"
      by (simp add: snd_analyzeCvAction_Inr snd_analyzeJobDescriptionAction_Inr
          snd_matchCvToJobAction_Inr)
    with some show ?thesis by auto
  qed
  with called(4) show ?thesis by simp
qed

lemma try_block_fulfilled:
  assumes "snd (snd (try_block w data)) = Inr (a, j, m)"
  shows "\<exists>i. MatchCvToJobCall i \<in> set (fst (try_block w data)) \<and> matchCvToJob_op w i = Inr m"
proof (cases w data rule: try_block_cases)
  case (stopped warned e)
  with assms show ?thesis by simp
next
  case (called f fs uri warned cvText)
  let ?i = "\<lparr>match_jobDescription = jobDescription data, cvContent = cvText\<rparr>"
  from assms called(4) have "promise_all (settled w)
            (snd (analyzeCvAction (analyzeCv_op w) \<lparr>cvDataUri = uri\<rparr>))
            (snd (analyzeJobDescriptionAction (analyzeJobDescription_op w)
                     \<lparr>job_jobDescription = jobDescription data\<rparr>))
            (snd (matchCvToJobAction (matchCvToJob_op w) ?i)) = Inr (a, j, m)"
    by simp
  then have "snd (matchCvToJobAction (matchCvToJob_op w) ?i) = Inr m"
    by (rule promise_all_Inr [THEN conjunct2, THEN conjunct2])
  then have "matchCvToJob_op w ?i = Inr m"
    by (simp add: snd_matchCvToJobAction_Inr)
  moreover from called(4) have "MatchCvToJobCall ?i \<in> set (fst (try_block w data))"
    by simp
  ultimately show ?thesis by blast
qed

lemma onSubmitHandler_calls: "calls (onSubmitHandler w st data) = fst (try_block w data)"
  by (cases "try_block w data" rule: prod_cases3)
     (auto simp: onSubmitHandler_def Let_def split: sum.splits)

lemma onSubmitHandler_rejected:
  assumes "snd (snd (try_block w data)) = Inl e"
  shows "page (onSubmitHandler w st data)
     = st\<lparr>isLoading := False, error := Some (message_or_default e), cvAnalysis := None,
          jobAnalysis := None, matchResult := None\<rparr>"
  using assms
  by (cases "try_block w data" rule: prod_cases3)
     (simp add: onSubmitHandler_def Let_def)

lemma onSubmitHandler_fulfilled:
  assumes "snd (snd (try_block w data)) = Inr (a, j, m)"
  shows "page (onSubmitHandler w st data)
     = st\<lparr>isLoading := False, error := None, cvAnalysis := Some a,
          jobAnalysis := Some j, matchResult := Some m\<rparr>"
  using assms
  by (cases "try_block w data" rule: prod_cases3)
     (simp add: onSubmitHandler_def Let_def)

subsection \<open>A failed operation\<close>

text \<open>
  C2. Whenever the submission has made its remote calls and the operation behind at least
  one of them rejects, whichever and however many they are, the submission ends in the
  error state: one error message is stored and shown, none of the three results is
  stored, so none of the three result panels is rendered, and the loading flag is off.
\<close>

theorem any_rejection_ends_in_error:
  assumes "c \<in> set (calls (onSubmitHandler w st data))" and "rejects w c"
  shows "(\<exists>m. error (page (onSubmitHandler w st data)) = Some m \<and> m \<noteq> []
             \<and> error_alert (page (onSubmitHandler w st data)) = Some m)
         \<and> cvAnalysis (page (onSubmitHandler w st data)) = None
         \<and> jobAnalysis (page (onSubmitHandler w st data)) = None
         \<and> matchResult (page (onSubmitHandler w st data)) = None
         \<and> isLoading (page (onSubmitHandler w st data)) = False"
proof -
  from assms obtain e where "snd (snd (try_block w data)) = Inl e"
    using try_block_rejected onSubmitHandler_calls by metis
  then have "page (onSubmitHandler w st data)
     = st\<lparr>isLoading := False, error := Some (message_or_default e), cvAnalysis := None,
          jobAnalysis := None, matchResult := None\<rparr>"
    by (rule onSubmitHandler_rejected)
  then show ?thesis
    by (simp add: error_alert_def message_or_default_nonempty)
qed

theorem any_rejection_ends_in_error_witness:
  "AnalyzeJobDescriptionCall \<lparr>job_jobDescription = example_jobDescription\<rparr>
     \<in> set (calls (onSubmitHandler failing_world initial_state
                \<lparr>jobDescription = example_jobDescription, cvFile = Some [pdf_file]\<rparr>))
   \<and> rejects failing_world
        (AnalyzeJobDescriptionCall \<lparr>job_jobDescription = example_jobDescription\<rparr>)
   \<and> error (page (onSubmitHandler failing_world initial_state
                \<lparr>jobDescription = example_jobDescription, cvFile = Some [pdf_file]\<rparr>))
       = Some ''Failed to analyze job description: backend unreachable''
   \<and> matchResult (page (onSubmitHandler failing_world initial_state
                \<lparr>jobDescription = example_jobDescription, cvFile = Some [pdf_file]\<rparr>)) = None"
proof -
  let ?data = "\<lparr>jobDescription = example_jobDescription, cvFile = Some [pdf_file]\<rparr>"
  let ?c = "AnalyzeJobDescriptionCall \<lparr>job_jobDescription = example_jobDescription\<rparr>"
  have made: "?c \<in> set (calls (onSubmitHandler failing_world initial_state ?data))"
    by (simp add: handler_defs example_defs)
  have rejected: "rejects failing_world ?c"
    by (simp add: example_defs)
  have shown: "error (page (onSubmitHandler failing_world initial_state ?data))
       = Some ''Failed to analyze job description: backend unreachable''"
    by (simp add: handler_defs example_defs)
  from any_rejection_ends_in_error [OF made rejected] made rejected shown
  show ?thesis by simp
qed

subsection \<open>A file that cannot be decoded as text\<close>

text \<open>
  C4, as stated, fails: for a file of type \<open>text/plain\<close> the read is outside the inner
  \<open>try\<close>. When it throws, no remote operation is invoked and the submission ends in the
  error state.
\<close>

theorem text_fallback_counterexample:
  "readFileAsText unreadable_world txt_file = Inl NonError
   \<and> calls (onSubmitHandler unreadable_world initial_state
              \<lparr>jobDescription = example_jobDescription, cvFile = Some [txt_file]\<rparr>) = []
   \<and> error (page (onSubmitHandler unreadable_world initial_state
              \<lparr>jobDescription = example_jobDescription, cvFile = Some [txt_file]\<rparr>))
       = Some ''An unexpected error occurred. Please try again.''"
  by (simp add: handler_defs example_defs)

text \<open>
  C4, amended. For every submitted file whose type is not \<open>text/plain\<close> and whose data URL
  was read, whenever decoding the file as text throws, the three operations are invoked,
  the match operation with the placeholder as its CV content. For a file of type
  \<open>text/plain\<close> a decoding failure is not caught there: no operation is invoked and the
  submission ends in the error state.
\<close>

theorem text_fallback_for_other_types:
  assumes "cvFile data = Some (f # fs)"
    and "readFileAsDataURL w f = Inr uri"
    and "readFileAsText w f = Inl e"
  shows "(file_type f \<noteq> ''text/plain'' \<longrightarrow>
            calls (onSubmitHandler w st data)
              = [AnalyzeCvCall \<lparr>cvDataUri = uri\<rparr>,
                 AnalyzeJobDescriptionCall \<lparr>job_jobDescription = jobDescription data\<rparr>,
                 MatchCvToJobCall \<lparr>match_jobDescription = jobDescription data,
                                   cvContent = placeholder\<rparr>])
         \<and> (file_type f = ''text/plain'' \<longrightarrow>
              calls (onSubmitHandler w st data) = []
              \<and> error (page (onSubmitHandler w st data)) = Some (message_or_default e))"
proof -
  have other: "calls (onSubmitHandler w st data)
              = [AnalyzeCvCall \<lparr>cvDataUri = uri\<rparr>,
                 AnalyzeJobDescriptionCall \<lparr>job_jobDescription = jobDescription data\<rparr>,
                 MatchCvToJobCall \<lparr>match_jobDescription = jobDescription data,
                                   cvContent = placeholder\<rparr>]"
    if "file_type f \<noteq> ''text/plain''"
  proof -
    from that assms(3) have "read_cvTextContent w f
        = ([ConsoleWarn ''Could not read file as text:'' e], Inr placeholder)"
      by (simp add: read_cvTextContent_def)
    with assms(1,2) show ?thesis
      by (simp add: onSubmitHandler_calls try_block_def Let_def split: prod.splits)
  qed
  have plain: "calls (onSubmitHandler w st data) = []
      \<and> error (page (onSubmitHandler w st data)) = Some (message_or_default e)"
    if "file_type f = ''text/plain''"
  proof -
    from that assms(3) have "read_cvTextContent w f = ([], Inl e)"
      by (simp add: read_cvTextContent_def)
    with assms(1,2) have t: "try_block w data = ([], [], Inl e)"
      by (simp add: try_block_def)
    then have "calls (onSubmitHandler w st data) = []"
      by (simp add: onSubmitHandler_calls)
    moreover from t have "error (page (onSubmitHandler w st data)) = Some (message_or_default e)"
      by (simp add: onSubmitHandler_rejected)
    ultimately show ?thesis by simp
  qed
  from other plain show ?thesis by blast
qed

theorem text_fallback_for_other_types_witness:
  "cvFile \<lparr>jobDescription = example_jobDescription, cvFile = Some [pdf_file]\<rparr> = Some [pdf_file]
   \<and> readFileAsDataURL unreadable_world pdf_file = Inr ''data:text/plain;base64,SGk=''
   \<and> readFileAsText unreadable_world pdf_file = Inl NonError
   \<and> file_type pdf_file \<noteq> ''text/plain''
   \<and> calls (onSubmitHandler unreadable_world initial_state
              \<lparr>jobDescription = example_jobDescription, cvFile = Some [pdf_file]\<rparr>)
       = [AnalyzeCvCall \<lparr>cvDataUri = ''data:text/plain;base64,SGk=''\<rparr>,
          AnalyzeJobDescriptionCall \<lparr>job_jobDescription = example_jobDescription\<rparr>,
          MatchCvToJobCall \<lparr>match_jobDescription = example_jobDescription,
                            cvContent = placeholder\<rparr>]"
proof -
  let ?data = "\<lparr>jobDescription = example_jobDescription, cvFile = Some [pdf_file]\<rparr>"
  have a: "cvFile ?data = Some (pdf_file # [])" by simp
  have b: "readFileAsDataURL unreadable_world pdf_file = Inr ''data:text/plain;base64,SGk=''"
    by (simp add: readFileAsDataURL_def example_defs)
  have c: "readFileAsText unreadable_world pdf_file = Inl NonError"
    by (simp add: readFileAsText_def example_defs)
  have d: "file_type pdf_file \<noteq> ''text/plain''"
    by (simp add: pdf_file_def)
  from text_fallback_for_other_types [OF a b c, of initial_state] a b c d
  show ?thesis by simp
qed

subsection \<open>Validation\<close>

text \<open>
  What the form schema does on each kind of file list. A list that is \<open>undefined\<close>, or that
  holds a file, yields field messages; the empty list makes the second refinement throw.
\<close>

lemma short_description_blocked:
  assumes "length (jobDescription data) < 50" and "cvFile data \<noteq> Some []"
  shows "jobDescription_error (errors (page (handleSubmit w st data)))
           = Some ''Job description must be at least 50 characters.''
         \<and> calls (handleSubmit w st data) = []
         \<and> uncaught (handleSubmit w st data) = None"
proof (cases "cvFile data")
  case None
  with assms(1) show ?thesis by (simp add: validation_defs)
next
  case (Some files)
  with assms(2) obtain f fs where "files = f # fs" by (cases files) auto
  with Some assms(1) show ?thesis by (simp add: validation_defs)
qed

lemma invalid_file_blocked:
  assumes "cvFile data = Some (f # fs)"
    and "fs \<noteq> [] \<or> 5 * 1024 * 1024 < file_size f
         \<or> file_type f \<notin> {''application/pdf'', ''text/plain'',
              ''application/vnd.openxmlformats-officedocument.wordprocessingml.document'',
              ''application/msword''}"
  shows "cvFile_error (errors (page (handleSubmit w st data))) \<noteq> None
         \<and> calls (handleSubmit w st data) = []
         \<and> uncaught (handleSubmit w st data) = None"
  using assms by (auto simp: validation_defs)

lemma undefined_file_list_blocked:
  assumes "cvFile data = None"
  shows "cvFile_error (errors (page (handleSubmit w st data))) = Some ''CV file is required.''
         \<and> calls (handleSubmit w st data) = []
         \<and> uncaught (handleSubmit w st data) = None"
  using assms by (simp add: validation_defs)

lemma empty_file_list_throws:
  assumes "cvFile data = Some []"
  shows "handleSubmit w st data
     = \<lparr>page = st, calls = [], console = [],
        uncaught = Some (JsError (typeErrorMessage w ''files[0].size''))\<rparr>"
  using assms by (simp add: validation_defs)

text \<open>
  C7 at a submission with a short job description and no file chosen: the resolver throws
  while it refines the empty file list, so the length message is not stored. The
  submission is blocked and no operation is invoked, but no field shows a message.
\<close>

theorem short_description_without_file:
  "length ''Engineer'' < 50
   \<and> uncaught (handleSubmit example_world initial_state
        \<lparr>jobDescription = ''Engineer'', cvFile = Some []\<rparr>)
       = Some (JsError ''TypeError at files[0].size'')
   \<and> jobDescription_error (errors (page (handleSubmit example_world initial_state
        \<lparr>jobDescription = ''Engineer'', cvFile = Some []\<rparr>))) = None
   \<and> calls (handleSubmit example_world initial_state
        \<lparr>jobDescription = ''Engineer'', cvFile = Some []\<rparr>) = []"
  by (simp add: validation_defs example_defs initial_state_def)

text \<open>
  C8 at a submission with a valid job description and no file chosen: the first refinement
  fails, the second one reads \<open>files[0].size\<close> and throws. The submission is blocked and
  no operation is invoked, but the message that a file is required is not stored.
\<close>

theorem no_file_attached:
  "50 \<le> length example_jobDescription
   \<and> uncaught (handleSubmit example_world initial_state
        \<lparr>jobDescription = example_jobDescription, cvFile = Some []\<rparr>)
       = Some (JsError ''TypeError at files[0].size'')
   \<and> cvFile_error (errors (page (handleSubmit example_world initial_state
        \<lparr>jobDescription = example_jobDescription, cvFile = Some []\<rparr>))) = None
   \<and> calls (handleSubmit example_world initial_state
        \<lparr>jobDescription = example_jobDescription, cvFile = Some []\<rparr>) = []"
  by (simp add: validation_defs example_defs initial_state_def example_jobDescription_def)

subsection \<open>Reset\<close>

text \<open>
  C9. Reset returns every state to the initial one, in particular the state in which a
  submission ends, successful or failed, validated or not: the three results, the error
  message, the file name, the loading flag and the form's errors are cleared.
\<close>

theorem reset_restores_initial_state:
  "handleReset st = initial_state
   \<and> handleReset (page (onSubmitHandler w st data)) = initial_state
   \<and> handleReset (page (handleSubmit w st data)) = initial_state"
  by (simp add: handleReset_def initial_state_def)

subsection \<open>The highlighted CV\<close>

lemma replace_newlines_spec: "replace_newlines s = spec_newlines_to_br s"
  by (induction s) (simp_all add: spec_newlines_to_br_def)

lemma replace_newlines_raw: "CHR 0x0A \<notin> set s \<Longrightarrow> replace_newlines s = s"
  by (induction s) auto

text \<open>
  C10. After a successful submission the HTML of the highlighted-CV panel is the
  \<open>highlightedCv\<close> that the match operation returned, with every line feed replaced by
  \<open><br />\<close> and every other character kept: nothing is escaped or sanitised.
\<close>

theorem highlighted_html_is_raw:
  assumes "matchResult (page (onSubmitHandler w st data)) = Some r"
  shows "highlighted_html (page (onSubmitHandler w st data))
           = Some (spec_newlines_to_br (highlightedCv r))
         \<and> (\<exists>i. MatchCvToJobCall i \<in> set (calls (onSubmitHandler w st data))
                \<and> matchCvToJob_op w i = Inr r)"
proof (cases "snd (snd (try_block w data))")
  case (Inl e)
  then have "matchResult (page (onSubmitHandler w st data)) = None"
    by (simp add: onSubmitHandler_rejected)
  with assms show ?thesis by simp
next
  case (Inr x)
  obtain a j m where x: "x = (a, j, m)" by (cases x)
  with Inr have fulfilled: "snd (snd (try_block w data)) = Inr (a, j, m)" by simp
  then have "matchResult (page (onSubmitHandler w st data)) = Some m"
    by (simp add: onSubmitHandler_fulfilled)
  with assms have m: "m = r" by simp
  from fulfilled m have "\<exists>i. MatchCvToJobCall i \<in> set (calls (onSubmitHandler w st data))
                \<and> matchCvToJob_op w i = Inr r"
    using try_block_fulfilled onSubmitHandler_calls by metis
  moreover from assms have "highlighted_html (page (onSubmitHandler w st data))
           = Some (spec_newlines_to_br (highlightedCv r))"
    by (simp add: highlighted_html_def replace_newlines_spec)
  ultimately show ?thesis by simp
qed

theorem highlighted_html_is_raw_witness:
  "matchResult (page (onSubmitHandler example_world initial_state
       \<lparr>jobDescription = example_jobDescription, cvFile = Some [txt_file]\<rparr>)) = Some example_match
   \<and> highlightedCv example_match = [CHR ''a'', CHR 0x0A, CHR ''<'']
   \<and> highlighted_html (page (onSubmitHandler example_world initial_state
       \<lparr>jobDescription = example_jobDescription, cvFile = Some [txt_file]\<rparr>))
       = Some ''a<br /><''"
proof -
  let ?data = "\<lparr>jobDescription = example_jobDescription, cvFile = Some [txt_file]\<rparr>"
  have run: "matchResult (page (onSubmitHandler example_world initial_state ?data))
      = Some example_match"
    by (simp add: handler_defs example_world_def txt_file_def)
  have cv: "highlightedCv example_match = [CHR ''a'', CHR 0x0A, CHR ''<'']"
    by (simp add: example_match_def)
  from highlighted_html_is_raw [OF run] run cv show ?thesis
    by (simp add: spec_newlines_to_br_def)
qed

end
